theory Spec2Isabelle
  imports Main "HOL-Library.Word"
begin

text \<open>
  The repository adapts a sharded-training library to a training framework. Its own code
  is the precision adapter \<open>ShardedMixedPrecisionPlugin\<close> (a constructor that chooses the
  gradient scaler, and \<open>clip_grad_by_norm\<close>) and a test harness for the fully-sharded
  strategy. Both are modelled here with the two libraries as parameters.
\<close>

section \<open>Python values\<close>

text \<open>
  Objects are known by reference. A value is \<open>None\<close>, an integer, a float (its 64 bits),
  a string or a reference to an object. Exceptions carry their class name and message.
\<close>

type_synonym ref = nat

datatype pyval = NoneV | IntV int | FloatV "64 word" | StrV string | ObjV ref

datatype exn = Exn string string

text \<open>
  \<open>precision: Literal["16", 16, "bf16"]\<close>: the argument is a string or an integer. The
  type is wider than the three literals, as the annotation is not enforced at run time.
\<close>

datatype precision = PrecStr string | PrecInt int

subsection \<open>\<open>str()\<close> on strings and integers\<close>

definition digit_char :: "nat \<Rightarrow> char" where
  "digit_char d = ''0123456789'' ! d"

function str_nat :: "nat \<Rightarrow> string" where
  "str_nat n = (if n < 10 then [digit_char n] else str_nat (n div 10) @ [digit_char (n mod 10)])"
  by pat_completeness auto
termination
  by (relation "measure id") auto

declare str_nat.simps [simp del]

definition str_int :: "int \<Rightarrow> string" where
  "str_int i = (if i < 0 then CHR ''-'' # str_nat (nat (- i)) else str_nat (nat i))"

fun str :: "precision \<Rightarrow> string" where
  "str (PrecStr s) = s"
| "str (PrecInt i) = str_int i"

section \<open>Calls into the collaborators\<close>

text \<open>
  The adapter computes nothing by itself: it calls the sharding library and the host
  framework. A method is therefore a tree of such calls: it returns, raises, or issues
  a call and continues with the reply.
  \<^item> \<open>ShardedGradScaler_new\<close> is \<open>ShardedGradScaler()\<close>;
  \<^item> \<open>MixedPrecisionPlugin_init self precision device scaler\<close> is
    \<open>super().__init__(precision, device, scaler=...)\<close>;
  \<^item> \<open>OSS_clip_grad_norm optimizer clip_val\<close> is \<open>optimizer.clip_grad_norm(clip_val)\<close>.
\<close>

datatype call =
    ShardedGradScaler_new
  | MixedPrecisionPlugin_init ref precision string pyval
  | OSS_clip_grad_norm ref pyval

datatype reply = Returned pyval | Raised exn

datatype 'a prog = Return 'a | Throw exn | Call call "reply \<Rightarrow> 'a prog"

primrec bind :: "'a prog \<Rightarrow> ('a \<Rightarrow> 'b prog) \<Rightarrow> 'b prog" where
  "bind (Return a) f = f a"
| "bind (Throw e) f = Throw e"
| "bind (Call c k) f = Call c (\<lambda>r. bind (k r) f)"

text \<open>A call expression: its value is what the callee returns; what the callee raises propagates.\<close>

definition invoke :: "call \<Rightarrow> pyval prog" where
  "invoke c = Call c (\<lambda>r. case r of Returned v \<Rightarrow> Return v | Raised e \<Rightarrow> Throw e)"

text \<open>
  Running a method against collaborators \<open>h\<close> that act on a world \<open>'w\<close> gives the calls
  made with their replies, in order, the outcome (\<open>Inl\<close> an exception, \<open>Inr\<close> the value
  returned) and the world left behind.
\<close>

type_synonym 'w collaborators = "call \<Rightarrow> 'w \<Rightarrow> reply \<times> 'w"

type_synonym trace = "(call \<times> reply) list"

primrec exec :: "'w collaborators \<Rightarrow> 'a prog \<Rightarrow> 'w \<Rightarrow> trace \<times> (exn + 'a) \<times> 'w" where
  "exec h (Return a) w = ([], Inr a, w)"
| "exec h (Throw e) w = ([], Inl e, w)"
| "exec h (Call c k) w =
     (case h c w of (r, w1) \<Rightarrow>
        (case exec h (k r) w1 of (tr, res, w2) \<Rightarrow> ((c, r) # tr, res, w2)))"

text \<open>The scaler arguments of the base constructor calls of a trace.\<close>

fun base_scalers :: "trace \<Rightarrow> pyval list" where
  "base_scalers [] = []"
| "base_scalers ((MixedPrecisionPlugin_init self precision device scaler, r) # tr) =
     scaler # base_scalers tr"
| "base_scalers ((c, r) # tr) = base_scalers tr"

section \<open>The precision adapter (sharded_amp.py)\<close>

text \<open>
  \<^verbatim>\<open>
  def __init__(self, precision, device, scaler=None):
      super().__init__(
          precision, device,
          scaler=(ShardedGradScaler() if scaler is None and str(precision) == "16" else None)
      )
  \<close>
  The argument expression is evaluated first (\<open>and\<close> does not evaluate \<open>str(precision)\<close>
  when a scaler is given), then the base constructor is called; \<open>__init__\<close> returns \<open>None\<close>.
\<close>

definition ShardedMixedPrecisionPlugin_init :: "ref \<Rightarrow> precision \<Rightarrow> string \<Rightarrow> pyval \<Rightarrow> pyval prog" where
  "ShardedMixedPrecisionPlugin_init self precision device scaler =
     bind (if scaler = NoneV \<and> str precision = ''16''
           then invoke ShardedGradScaler_new else Return NoneV)
       (\<lambda>s. bind (invoke (MixedPrecisionPlugin_init self precision device s))
          (\<lambda>_. Return NoneV))"

text \<open>
  \<^verbatim>\<open>
  def clip_grad_by_norm(self, optimizer, clip_val):
      optimizer.clip_grad_norm(clip_val)
  \<close>
\<close>

definition clip_grad_by_norm :: "ref \<Rightarrow> ref \<Rightarrow> pyval \<Rightarrow> pyval prog" where
  "clip_grad_by_norm self optimizer clip_val =
     bind (invoke (OSS_clip_grad_norm optimizer clip_val)) (\<lambda>_. Return NoneV)"

subsection \<open>Stand-ins for the collaborators\<close>

text \<open>
  The sharding library and the host framework are not part of the repository. To run the
  adapter on concrete inputs, \<open>recording\<close> is a stand-in that allocates a new object for
  \<open>ShardedGradScaler()\<close>, stores the base constructor's arguments as fields of the
  plugin, and notes each clipping request; \<open>refusing\<close> raises on every call.
\<close>

record world =
  fresh :: ref
  attrs :: "(ref \<times> string \<times> pyval) list"
  clipped :: "(ref \<times> pyval) list"

fun recording :: "world collaborators" where
  "recording ShardedGradScaler_new w = (Returned (ObjV (fresh w)), w\<lparr>fresh := fresh w + 1\<rparr>)"
| "recording (MixedPrecisionPlugin_init self precision device scaler) w =
     (Returned NoneV,
      w\<lparr>attrs := (self, ''precision'', StrV (str precision)) # (self, ''device'', StrV device)
            # (self, ''scaler'', scaler) # attrs w\<rparr>)"
| "recording (OSS_clip_grad_norm optimizer clip_val) w =
     (Returned (FloatV 0), w\<lparr>clipped := clipped w @ [(optimizer, clip_val)]\<rparr>)"

definition refusing :: "world collaborators" where
  "refusing c w = (Raised (Exn ''RuntimeError'' ''unavailable''), w)"

definition world0 :: world where
  "world0 = \<lparr>fresh = 10, attrs = [], clipped = []\<rparr>"

text \<open>A world in which plugin \<open>1\<close> has been constructed with scaler \<open>10\<close>.\<close>

definition world1 :: world where
  "world1 = \<lparr>fresh = 11,
     attrs = [(1, ''precision'', StrV ''16''), (1, ''device'', StrV ''cuda''), (1, ''scaler'', ObjV 10)],
     clipped = []\<rparr>"

section \<open>The strategy test harness (test_ddp_fully_sharded.py)\<close>

subsection \<open>The manually wrapped test model\<close>

text \<open>
  The modules the test model is built from, and the fully-sharded wrapper around a module.
  \<open>isinstance(m, FullyShardedDataParallel)\<close> holds of the last constructor only.
\<close>

datatype module =
    Linear nat nat
  | ReLU
  | Sequential "module list"
  | FullyShardedDataParallel module

record TestFSDPModelManualWrapped =
  layer :: "module option"

text \<open>
  \<^verbatim>\<open>
  def _init_model(self):
      self.layer = torch.nn.Sequential(torch.nn.Linear(32, 32), torch.nn.ReLU(), torch.nn.Linear(32, 2))
  \<close>
\<close>

definition init_model :: "TestFSDPModelManualWrapped \<Rightarrow> TestFSDPModelManualWrapped" where
  "init_model self = self\<lparr>layer := Some (Sequential [Linear 32 32, ReLU, Linear 32 2])\<rparr>"

text \<open>Iterating over \<open>None\<close> or over a module that is no container raises \<open>TypeError\<close>.\<close>

definition not_iterable :: "string \<Rightarrow> exn" where
  "not_iterable cls = Exn ''TypeError'' ([CHR 0x27] @ cls @ [CHR 0x27] @ '' object is not iterable'')"

text \<open>
  \<^verbatim>\<open>
  for i, layer in enumerate(self.layer):
      if i % 2 == 0:
          self.layer[i] = wrap(layer)
  \<close>
  \<open>wrap\<close> is the sharding library's: a parameter, which returns a module or raises. The
  loop walks the container as it was (an assignment at \<open>i\<close> touches no later position),
  keeps the container as it is now in \<open>cur\<close>, and lists the modules given to \<open>wrap\<close>.
  An exception leaves the container as far as it had been rewritten.
\<close>

fun wrap_even_layers ::
  "(module \<Rightarrow> exn + module) \<Rightarrow> nat \<Rightarrow> module list \<Rightarrow> module list \<Rightarrow> module list
    \<Rightarrow> exn option \<times> module list \<times> module list" where
  "wrap_even_layers wrap i [] cur wrapped = (None, cur, wrapped)"
| "wrap_even_layers wrap i (l # rest) cur wrapped =
     (if i mod 2 = 0 then
        (case wrap l of
           Inl e \<Rightarrow> (Some e, cur, wrapped @ [l])
         | Inr m \<Rightarrow> wrap_even_layers wrap (i + 1) rest (cur[i := m]) (wrapped @ [l]))
      else wrap_even_layers wrap (i + 1) rest cur wrapped)"

text \<open>
  \<^verbatim>\<open>
  def configure_sharded_model(self):
      # the model is already wrapped with FSDP: no need to wrap again!
      if isinstance(self.layer, FullyShardedDataParallel):
          return
      for i, layer in enumerate(self.layer): ...
      self.layer = wrap(self.layer)
  \<close>
  The result is the exception raised, if any, the model afterwards, and the modules that
  were given to \<open>wrap\<close>, in order.
\<close>

definition configure_sharded_model ::
  "(module \<Rightarrow> exn + module) \<Rightarrow> TestFSDPModelManualWrapped
    \<Rightarrow> exn option \<times> TestFSDPModelManualWrapped \<times> module list" where
  "configure_sharded_model wrap self =
     (case layer self of
        Some (FullyShardedDataParallel m) \<Rightarrow> (None, self, [])
      | Some (Sequential ms) \<Rightarrow>
          (case wrap_even_layers wrap 0 ms ms [] of
             (Some e, cur, wrapped) \<Rightarrow> (Some e, self\<lparr>layer := Some (Sequential cur)\<rparr>, wrapped)
           | (None, cur, wrapped) \<Rightarrow>
               (case wrap (Sequential cur) of
                  Inl e \<Rightarrow>
                    (Some e, self\<lparr>layer := Some (Sequential cur)\<rparr>, wrapped @ [Sequential cur])
                | Inr m \<Rightarrow> (None, self\<lparr>layer := Some m\<rparr>, wrapped @ [Sequential cur])))
      | Some (Linear a b) \<Rightarrow> (Some (not_iterable ''Linear''), self, [])
      | Some ReLU \<Rightarrow> (Some (not_iterable ''ReLU''), self, [])
      | None \<Rightarrow> (Some (not_iterable ''NoneType''), self, []))"

text \<open>A stand-in for \<open>wrap\<close> inside the strategy's wrapping context: it wraps every module.\<close>

definition fsdp_wrap :: "module \<Rightarrow> exn + module" where
  "fsdp_wrap m = Inr (FullyShardedDataParallel m)"

text \<open>The test model after \<open>_init_model\<close> and one \<open>configure_sharded_model\<close> with that \<open>wrap\<close>.\<close>

definition wrapped_model :: TestFSDPModelManualWrapped where
  "wrapped_model = \<lparr>layer = Some (FullyShardedDataParallel
      (Sequential [FullyShardedDataParallel (Linear 32 32), ReLU,
                   FullyShardedDataParallel (Linear 32 2)]))\<rparr>"

subsection \<open>The gradient clipping test\<close>











subsection \<open>Stand-ins for the framework\<close>




section \<open>Facts about \<open>str\<close>\<close>

lemma str_nat_not_Nil: "str_nat n \<noteq> []"
  by (subst str_nat.simps) simp

lemma digit_char_cases:
  assumes "d < (10::nat)"
  shows "d = 0 \<or> d = 1 \<or> d = 2 \<or> d = 3 \<or> d = 4 \<or> d = 5 \<or> d = 6 \<or> d = 7 \<or> d = 8 \<or> d = 9"
  using assms by arith

lemma digit_char_1: "d < 10 \<Longrightarrow> digit_char d = CHR ''1'' \<longleftrightarrow> d = 1"
  using digit_char_cases [of d] by (auto simp: digit_char_def)

lemma digit_char_6: "d < 10 \<Longrightarrow> digit_char d = CHR ''6'' \<longleftrightarrow> d = 6"
  using digit_char_cases [of d] by (auto simp: digit_char_def)

lemma str_nat_1: "str_nat m = ''1'' \<longleftrightarrow> m = 1"
proof (cases "m < 10")
  case True
  then show ?thesis
    by (subst str_nat.simps) (simp add: digit_char_1)
next
  case False
  have "str_nat (m div 10) @ [digit_char (m mod 10)] \<noteq> ''1''"
    using str_nat_not_Nil [of "m div 10"] by (cases "str_nat (m div 10)") auto
  with False show ?thesis
    by (subst str_nat.simps) auto
qed

lemma str_nat_16: "str_nat n = ''16'' \<longleftrightarrow> n = 16"
proof (cases "n < 10")
  case True
  then show ?thesis
    by (subst str_nat.simps) simp
next
  case False
  have "str_nat (n div 10) @ [digit_char (n mod 10)] = ''16''
        \<longleftrightarrow> str_nat (n div 10) = ''1'' \<and> digit_char (n mod 10) = CHR ''6''"
    by (metis append_Cons append_Nil append1_eq_conv)
  also have "\<dots> \<longleftrightarrow> n div 10 = 1 \<and> n mod 10 = 6"
    by (simp add: str_nat_1 digit_char_6)
  also have "\<dots> \<longleftrightarrow> n = 16"
    by presburger
  finally show ?thesis
    using False by (subst str_nat.simps) simp
qed

lemma str_int_16: "str_int i = ''16'' \<longleftrightarrow> i = 16"
proof (cases "i < 0")
  case True
  then show ?thesis
    by (simp add: str_int_def)
next
  case False
  then have "nat i = 16 \<longleftrightarrow> i = 16"
    by arith
  with False show ?thesis
    by (simp add: str_int_def str_nat_16)
qed


section \<open>Running the adapter\<close>

lemma exec_bind:
  "exec h (bind m f) w =
     (case exec h m w of
        (tr, Inl e, w1) \<Rightarrow> (tr, Inl e, w1)
      | (tr, Inr a, w1) \<Rightarrow> (case exec h (f a) w1 of (tr2, res, w2) \<Rightarrow> (tr @ tr2, res, w2)))"
proof (induction m arbitrary: w)
  case (Return a)
  show ?case by (simp split: prod.splits)
next
  case (Throw e)
  show ?case by simp
next
  case (Call c k)
  show ?case
    by (simp add: Call.IH split: prod.splits sum.splits)
qed

lemma exec_invoke:
  "exec h (invoke c) w =
     (case h c w of
        (Returned v, w1) \<Rightarrow> ([(c, Returned v)], Inr v, w1)
      | (Raised e, w1) \<Rightarrow> ([(c, Raised e)], Inl e, w1))"
  by (simp add: invoke_def split: prod.splits reply.splits)

lemma exec_forward:
  "exec h (bind (invoke c) (\<lambda>_. Return NoneV)) w =
     (case h c w of
        (Returned v, w1) \<Rightarrow> ([(c, Returned v)], Inr NoneV, w1)
      | (Raised e, w1) \<Rightarrow> ([(c, Raised e)], Inl e, w1))"
  by (simp add: exec_bind exec_invoke split: prod.splits reply.splits)

lemma exec_clip_grad_by_norm:
  "exec h (clip_grad_by_norm self optimizer clip_val) w =
     (case h (OSS_clip_grad_norm optimizer clip_val) w of
        (Returned v, w1) \<Rightarrow> ([(OSS_clip_grad_norm optimizer clip_val, Returned v)], Inr NoneV, w1)
      | (Raised e, w1) \<Rightarrow> ([(OSS_clip_grad_norm optimizer clip_val, Raised e)], Inl e, w1))"
  by (simp add: clip_grad_by_norm_def exec_forward)

text \<open>The constructor when no scaler is built: one call, the base constructor's, with \<open>None\<close>.\<close>

lemma exec_init_plain:
  assumes "\<not> (scaler = NoneV \<and> str precision = ''16'')"
  shows "exec h (ShardedMixedPrecisionPlugin_init self precision device scaler) w =
     (case h (MixedPrecisionPlugin_init self precision device NoneV) w of
        (Returned v, w1) \<Rightarrow>
          ([(MixedPrecisionPlugin_init self precision device NoneV, Returned v)], Inr NoneV, w1)
      | (Raised e, w1) \<Rightarrow>
          ([(MixedPrecisionPlugin_init self precision device NoneV, Raised e)], Inl e, w1))"
proof -
  have "ShardedMixedPrecisionPlugin_init self precision device scaler =
      bind (invoke (MixedPrecisionPlugin_init self precision device NoneV)) (\<lambda>_. Return NoneV)"
    using assms by (auto simp: ShardedMixedPrecisionPlugin_init_def)
  then show ?thesis
    by (simp add: exec_forward)
qed

text \<open>The constructor when a scaler is built: \<open>ShardedGradScaler()\<close>, then the base constructor.\<close>

lemma exec_init_scaled:
  assumes "scaler = NoneV" "str precision = ''16''"
  shows "exec h (ShardedMixedPrecisionPlugin_init self precision device scaler) w =
     (case h ShardedGradScaler_new w of
        (Raised e, w1) \<Rightarrow> ([(ShardedGradScaler_new, Raised e)], Inl e, w1)
      | (Returned s, w1) \<Rightarrow>
          (case h (MixedPrecisionPlugin_init self precision device s) w1 of
             (Returned v, w2) \<Rightarrow>
               ([(ShardedGradScaler_new, Returned s),
                 (MixedPrecisionPlugin_init self precision device s, Returned v)], Inr NoneV, w2)
           | (Raised e, w2) \<Rightarrow>
               ([(ShardedGradScaler_new, Returned s),
                 (MixedPrecisionPlugin_init self precision device s, Raised e)], Inl e, w2)))"
  using assms
  by (simp add: ShardedMixedPrecisionPlugin_init_def exec_bind [of h "invoke ShardedGradScaler_new"]
      exec_invoke exec_forward split: prod.splits reply.splits)

lemma triple_eq: "x = (fst x, fst (snd x), snd (snd x))"
  by simp

section \<open>Facts about the substring search\<close>



section \<open>Facts about \<open>configure_sharded_model\<close>\<close>

lemma configure_sharded_model_wrapped:
  "layer s = Some (FullyShardedDataParallel k) \<Longrightarrow> configure_sharded_model wrap s = (None, s, [])"
  by (simp add: configure_sharded_model_def)

text \<open>When \<open>wrap\<close> wraps, a call that returns leaves the layer wrapped.\<close>

lemma configure_sharded_model_wraps:
  assumes w: "\<forall>x. \<exists>y. wrap x = Inr (FullyShardedDataParallel y)"
    and c: "configure_sharded_model wrap self = (None, self1, wrapped)"
  shows "\<exists>k. layer self1 = Some (FullyShardedDataParallel k)"
proof (cases "layer self")
  case None
  with c show ?thesis by (simp add: configure_sharded_model_def)
next
  case (Some m0)
  show ?thesis
  proof (cases m0)
    case (Sequential ms)
    obtain r cur ws where l: "wrap_even_layers wrap 0 ms ms [] = (r, cur, ws)"
      by (metis prod_cases3)
    obtain y where y: "wrap (Sequential cur) = Inr (FullyShardedDataParallel y)"
      using w by blast
    from c Some Sequential l y show ?thesis
      by (cases r) (auto simp: configure_sharded_model_def)
  qed (use c Some in \<open>auto simp: configure_sharded_model_def\<close>)
qed

section \<open>Properties of the precision adapter\<close>

text \<open>
  C1 (the code departs from the claim). The claim: a scaler supplied to the constructor is
  the one the plugin uses, whatever the precision. The constructor tests the supplied
  scaler against \<open>None\<close> and then passes \<open>None\<close> to the base constructor in its place:
  with precision \<open>16\<close>, device \<open>"cuda"\<close> and the scaler object \<open>0\<close> supplied, the only call
  made is the base constructor's, with \<open>scaler=None\<close>.
\<close>

theorem supplied_scaler_is_dropped:
  "map fst (fst (exec recording
      (ShardedMixedPrecisionPlugin_init 1 (PrecInt 16) ''cuda'' (ObjV 0)) world0))
     = [MixedPrecisionPlugin_init 1 (PrecInt 16) ''cuda'' NoneV]"
  by (simp add: exec_init_plain)



text \<open>
  C3. With precision \<open>"bf16"\<close> and no scaler supplied, the constructor makes one call,
  the base constructor's, and the scaler it passes is \<open>None\<close>.
\<close>

theorem bf16_gets_no_scaler:
  "map fst (fst (exec h (ShardedMixedPrecisionPlugin_init self (PrecStr ''bf16'') device NoneV) w))
     = [MixedPrecisionPlugin_init self (PrecStr ''bf16'') device NoneV]
   \<and> base_scalers (fst (exec h
         (ShardedMixedPrecisionPlugin_init self (PrecStr ''bf16'') device NoneV) w)) = [NoneV]"
  by (simp add: exec_init_plain split: prod.splits reply.splits)

text \<open>
  C4. For every optimizer and clip value, against any collaborators, the calls that
  \<open>clip_grad_by_norm\<close> makes are exactly one: the optimizer's \<open>clip_grad_norm\<close> with
  the clip value as it was given.
\<close>

theorem clip_grad_by_norm_delegates_once:
  "map fst (fst (exec h (clip_grad_by_norm self optimizer clip_val) w))
     = [OSS_clip_grad_norm optimizer clip_val]"
  by (simp add: exec_clip_grad_by_norm split: prod.splits reply.splits)

text \<open>
  C8. The constructor and \<open>clip_grad_by_norm\<close> raise nothing of their own, for every
  precision, device, scaler, optimizer and clip value: each makes at least one call; if
  it ends with an exception, that exception is what its last call raised; otherwise
  every call returned and the method returns \<open>None\<close>.
\<close>

theorem adapter_raises_only_what_collaborators_raise:
  assumes "prog = ShardedMixedPrecisionPlugin_init self precision device scaler
           \<or> prog = clip_grad_by_norm self optimizer clip_val"
    and "exec h prog w = (tr, res, w')"
  shows "tr \<noteq> []
       \<and> (case res of
             Inl e \<Rightarrow> snd (last tr) = Raised e
           | Inr v \<Rightarrow> v = NoneV \<and> (\<forall>x \<in> set tr. \<exists>u. snd x = Returned u))"
proof -
  consider (clip) "prog = clip_grad_by_norm self optimizer clip_val"
    | (scaled) "prog = ShardedMixedPrecisionPlugin_init self precision device scaler"
        "scaler = NoneV \<and> str precision = ''16''"
    | (plain) "prog = ShardedMixedPrecisionPlugin_init self precision device scaler"
        "\<not> (scaler = NoneV \<and> str precision = ''16'')"
    using assms(1) by blast
  then show ?thesis
  proof cases
    case clip
    with assms(2) show ?thesis
      by (auto simp: exec_clip_grad_by_norm split: prod.splits reply.splits)
  next
    case scaled
    with assms(2) show ?thesis
      by (auto simp: exec_init_scaled split: prod.splits reply.splits)
  next
    case plain
    with assms(2) show ?thesis
      by (auto simp: exec_init_plain split: prod.splits reply.splits)
  qed
qed

theorem adapter_raises_only_what_collaborators_raise_witness:
  "fst (exec refusing (ShardedMixedPrecisionPlugin_init 1 (PrecInt 16) ''cuda'' NoneV) world0) \<noteq> []
   \<and> fst (snd (exec refusing (ShardedMixedPrecisionPlugin_init 1 (PrecInt 16) ''cuda'' NoneV) world0))
       = Inl (Exn ''RuntimeError'' ''unavailable'')
   \<and> snd (last (fst (exec refusing
         (ShardedMixedPrecisionPlugin_init 1 (PrecInt 16) ''cuda'' NoneV) world0)))
       = Raised (Exn ''RuntimeError'' ''unavailable'')"
proof -
  let ?P = "ShardedMixedPrecisionPlugin_init 1 (PrecInt 16) ''cuda'' NoneV"
  let ?X = "exec refusing ?P world0"
  have p: "?P = ShardedMixedPrecisionPlugin_init 1 (PrecInt 16) ''cuda'' NoneV
           \<or> ?P = clip_grad_by_norm 1 2 (IntV 1)"
    by simp
  have e: "?X = (fst ?X, fst (snd ?X), snd (snd ?X))"
    by (rule triple_eq)
  have r: "fst (snd ?X) = Inl (Exn ''RuntimeError'' ''unavailable'')"
    by (simp add: exec_init_scaled str_int_16 refusing_def)
  from adapter_raises_only_what_collaborators_raise [OF p e] r show ?thesis
    by simp
qed

text \<open>
  C9. Whatever the precision, device and scaler argument, a scaler handed to the base
  constructor is \<open>None\<close> or the value that the constructor's own call of
  \<open>ShardedGradScaler()\<close>, its first call, returned; when the caller supplied a scaler,
  \<open>None\<close> is handed on, not the caller's object.
\<close>

theorem forwarded_scaler_is_new_or_None:
  assumes "exec h (ShardedMixedPrecisionPlugin_init self precision device scaler) w = (tr, res, w')"
    and "s \<in> set (base_scalers tr)"
  shows "(s = NoneV \<or> (scaler = NoneV \<and> hd tr = (ShardedGradScaler_new, Returned s)))
       \<and> (scaler \<noteq> NoneV \<longrightarrow> s = NoneV \<and> s \<noteq> scaler)"
proof (cases "scaler = NoneV \<and> str precision = ''16''")
  case True
  with assms show ?thesis
    by (auto simp: exec_init_scaled split: prod.splits reply.splits)
next
  case False
  with assms show ?thesis
    by (auto simp: exec_init_plain split: prod.splits reply.splits)
qed

theorem forwarded_scaler_is_new_or_None_witness:
  "ObjV 10 \<in> set (base_scalers (fst (exec recording
       (ShardedMixedPrecisionPlugin_init 1 (PrecStr ''16'') ''cuda'' NoneV) world0)))
   \<and> hd (fst (exec recording
       (ShardedMixedPrecisionPlugin_init 1 (PrecStr ''16'') ''cuda'' NoneV) world0))
     = (ShardedGradScaler_new, Returned (ObjV 10))"
proof -
  let ?X = "exec recording (ShardedMixedPrecisionPlugin_init 1 (PrecStr ''16'') ''cuda'' NoneV) world0"
  have e: "?X = (fst ?X, fst (snd ?X), snd (snd ?X))"
    by (rule triple_eq)
  have m: "ObjV 10 \<in> set (base_scalers (fst ?X))"
    by (simp add: exec_init_scaled world0_def)
  from forwarded_scaler_is_new_or_None [OF e m] m show ?thesis
    by simp
qed

text \<open>
  C10. \<open>clip_grad_by_norm\<close> returns \<open>None\<close> whenever the optimizer's call returns (and
  passes on what it raises otherwise); the world it leaves is the one the optimizer's
  call left, so whatever that call leaves unchanged (the plugin's fields, for one) is
  unchanged; and the method does not depend on the plugin it is called on.
\<close>

theorem clip_grad_by_norm_frame:
  assumes "exec h (clip_grad_by_norm self optimizer clip_val) w = (tr, res, w')"
  shows "res = (case fst (h (OSS_clip_grad_norm optimizer clip_val) w) of
                  Returned v \<Rightarrow> Inr NoneV | Raised e \<Rightarrow> Inl e)
       \<and> w' = snd (h (OSS_clip_grad_norm optimizer clip_val) w)
       \<and> ((\<forall>w0. view (snd (h (OSS_clip_grad_norm optimizer clip_val) w0)) = view w0)
            \<longrightarrow> view w' = view w)
       \<and> clip_grad_by_norm self2 optimizer clip_val = clip_grad_by_norm self optimizer clip_val"
proof -
  have "clip_grad_by_norm self2 optimizer clip_val = clip_grad_by_norm self optimizer clip_val"
    by (simp add: clip_grad_by_norm_def)
  moreover have "res = (case fst (h (OSS_clip_grad_norm optimizer clip_val) w) of
                  Returned v \<Rightarrow> Inr NoneV | Raised e \<Rightarrow> Inl e)
       \<and> w' = snd (h (OSS_clip_grad_norm optimizer clip_val) w)"
    using assms by (auto simp: exec_clip_grad_by_norm split: prod.splits reply.splits)
  ultimately show ?thesis
    by simp
qed

theorem clip_grad_by_norm_frame_witness:
  "fst (snd (exec recording (clip_grad_by_norm 1 2 (FloatV 0)) world1)) = Inr NoneV
   \<and> attrs (snd (snd (exec recording (clip_grad_by_norm 1 2 (FloatV 0)) world1))) = attrs world1
   \<and> clipped (snd (snd (exec recording (clip_grad_by_norm 1 2 (FloatV 0)) world1))) = [(2, FloatV 0)]"
proof -
  let ?X = "exec recording (clip_grad_by_norm 1 2 (FloatV 0)) world1"
  have e: "?X = (fst ?X, fst (snd ?X), snd (snd ?X))"
    by (rule triple_eq)
  from clip_grad_by_norm_frame [OF e, of attrs 1] show ?thesis
    by (simp add: world1_def)
qed

section \<open>Properties of the test harness\<close>




text \<open>
  C7. If the layer of the test model is a fully-sharded wrapper when
  \<open>configure_sharded_model\<close> is called, the method returns with the model as it was and
  nothing given to \<open>wrap\<close>. So configuring is idempotent: when \<open>wrap\<close> wraps, a second
  call after one that returned changes nothing and wraps nothing.
\<close>

theorem configure_sharded_model_idempotent:
  "(layer self = Some (FullyShardedDataParallel m)
      \<longrightarrow> configure_sharded_model wrap self = (None, self, []))
   \<and> ((\<forall>x. \<exists>y. wrap x = Inr (FullyShardedDataParallel y))
        \<and> configure_sharded_model wrap self = (None, self1, wrapped)
      \<longrightarrow> configure_sharded_model wrap self1 = (None, self1, []))"
  using configure_sharded_model_wrapped configure_sharded_model_wraps by blast

theorem configure_sharded_model_idempotent_witness:
  "layer wrapped_model = Some (FullyShardedDataParallel
      (Sequential [FullyShardedDataParallel (Linear 32 32), ReLU,
                   FullyShardedDataParallel (Linear 32 2)]))
   \<and> configure_sharded_model fsdp_wrap (init_model \<lparr>layer = None\<rparr>) =
         (None, wrapped_model,
          [Linear 32 32, Linear 32 2,
           Sequential [FullyShardedDataParallel (Linear 32 32), ReLU,
                       FullyShardedDataParallel (Linear 32 2)]])
   \<and> configure_sharded_model fsdp_wrap wrapped_model = (None, wrapped_model, [])"
proof -
  have l: "layer wrapped_model = Some (FullyShardedDataParallel
      (Sequential [FullyShardedDataParallel (Linear 32 32), ReLU,
                   FullyShardedDataParallel (Linear 32 2)]))"
    by (simp add: wrapped_model_def)
  have w: "\<forall>x. \<exists>y. fsdp_wrap x = Inr (FullyShardedDataParallel y)"
    by (simp add: fsdp_wrap_def)
  have c: "configure_sharded_model fsdp_wrap (init_model \<lparr>layer = None\<rparr>) =
         (None, wrapped_model,
          [Linear 32 32, Linear 32 2,
           Sequential [FullyShardedDataParallel (Linear 32 32), ReLU,
                       FullyShardedDataParallel (Linear 32 2)]])"
    by (simp add: configure_sharded_model_def init_model_def fsdp_wrap_def wrapped_model_def)
  from configure_sharded_model_idempotent [of wrapped_model _ fsdp_wrap]
    configure_sharded_model_idempotent [of "init_model \<lparr>layer = None\<rparr>" _ fsdp_wrap wrapped_model]
    l w c show ?thesis
    by blast
qed

end
